theory Spec2Isabelle
  imports Main
begin

section \<open>sync-autoreboot: the watchdog of app.js\<close>

text \<open>
  A shallow embedding of the client part of \<^verbatim>\<open>src/app.js\<close>: the alarm
  (\<^verbatim>\<open>alarm\<close>, \<^verbatim>\<open>timestamp_alarm\<close>), the drift check
  (\<^verbatim>\<open>checkTimestamp\<close>), the reboot guard (\<^verbatim>\<open>getLastRebootTimestamp\<close>,
  \<^verbatim>\<open>setLastRebootTimestamp\<close>, \<^verbatim>\<open>restartSystem\<close>), the timer callback of
  \<^verbatim>\<open>startClient\<close> and the mode selection at program startup.

  Modelling decisions.
  \<^item> Times and durations are JavaScript numbers holding whole milliseconds:
    \<open>Date.now()\<close>, \<open>getTime()\<close> and \<open>parseInt\<close> return integers, and on integers
    below \<open>2^53\<close> the double arithmetic of the source (\<open>+\<close>, \<open>-\<close>,
    \<open>Math.abs\<close>, comparisons) is exact. They are \<open>int\<close> here; the configured
    durations are taken as whole milliseconds too. A number read from the guard file
    can be any integer-valued double, or infinite; \<open>parseInt10\<close> rounds as the
    source does, and \<open>double_sub_same_decision\<close> shows that the rounding of the
    one difference such a number enters does not change the comparison made on it.
  \<^item> Every call of \<open>Date.now()\<close> is an argument of the function that makes it,
    in the order of the calls.
  \<^item> The module variables and the guard file are fields of one state record; what the
    program does to the outside (log lines, the HTTP request, the completed write of
    the guard file, the reboot command) is appended to \<open>events\<close> in the order it
    happens. The prefix \<^verbatim>\<open>[sync-autoreboot] [ts]\<close> of a log line is left out.
\<close>

subsection \<open>JavaScript numbers\<close>

text \<open>A number is an integer-valued finite double (\<open>Num\<close> of its value), an
  infinity, or \<open>NaN\<close>.\<close>

datatype jsnum = Num int | PosInf | NegInf | NaN

text \<open>\<^verbatim>\<open>a - b\<close>, \<^verbatim>\<open>Math.abs(a)\<close>, \<^verbatim>\<open>a > b\<close> and \<^verbatim>\<open>a < b\<close>: any arithmetic on
  \<open>NaN\<close> gives \<open>NaN\<close>, as does the difference of equal infinities; any
  comparison with \<open>NaN\<close> is false.\<close>

fun js_sub :: "jsnum \<Rightarrow> jsnum \<Rightarrow> jsnum" where
  "js_sub (Num a) (Num b) = Num (a - b)"
| "js_sub NaN _ = NaN"
| "js_sub _ NaN = NaN"
| "js_sub PosInf PosInf = NaN"
| "js_sub NegInf NegInf = NaN"
| "js_sub PosInf _ = PosInf"
| "js_sub NegInf _ = NegInf"
| "js_sub (Num a) PosInf = NegInf"
| "js_sub (Num a) NegInf = PosInf"

fun js_abs :: "jsnum \<Rightarrow> jsnum" where
  "js_abs (Num a) = Num \<bar>a\<bar>"
| "js_abs PosInf = PosInf"
| "js_abs NegInf = PosInf"
| "js_abs NaN = NaN"

fun js_lt :: "jsnum \<Rightarrow> jsnum \<Rightarrow> bool" where
  "js_lt (Num a) (Num b) = (a < b)"
| "js_lt NegInf (Num b) = True"
| "js_lt NegInf PosInf = True"
| "js_lt (Num a) PosInf = True"
| "js_lt _ _ = False"

fun js_gt :: "jsnum \<Rightarrow> jsnum \<Rightarrow> bool" where
  "js_gt (Num a) (Num b) = (a > b)"
| "js_gt PosInf (Num b) = True"
| "js_gt PosInf NegInf = True"
| "js_gt (Num a) NegInf = True"
| "js_gt _ _ = False"

text \<open>\<^verbatim>\<open>x || 0\<close> on a number: \<open>NaN\<close> and \<open>0\<close> are falsy.\<close>

fun js_or_zero :: "jsnum \<Rightarrow> jsnum" where
  "js_or_zero NaN = Num 0"
| "js_or_zero x = x"

text \<open>
  The double nearest to an integer, ties to the even significand: the Number value of
  a mathematical integer. Below \<open>2^53\<close> every integer is a double; above, a double
  has 53 significant bits, and from \<open>2^1024\<close> on the result is an infinity.
\<close>

fun bitlen :: "nat \<Rightarrow> nat" where
  "bitlen n = (if n = 0 then 0 else Suc (bitlen (n div 2)))"

declare bitlen.simps [simp del]

definition round_double :: "int \<Rightarrow> jsnum" where
  "round_double i =
     (let m = nat \<bar>i\<bar> in
      if m < 9007199254740992 then Num i
      else
        (let e = bitlen m - 53;
             q = m div 2 ^ e;
             r = m mod 2 ^ e;
             q' = (if 2 * r > 2 ^ e \<or> (2 * r = 2 ^ e \<and> odd q) then q + 1 else q);
             v = q' * 2 ^ e
         in if v \<ge> 2 ^ 1024 then (if i < 0 then NegInf else PosInf)
            else Num (if i < 0 then - int v else int v)))"

subsection \<open>Strings: \<^verbatim>\<open>toString\<close>, \<^verbatim>\<open>trim\<close>, \<^verbatim>\<open>parseInt(s, 10)\<close>\<close>

text \<open>A string of the program is a list of UTF-16 code units; \<open>units\<close> gives those of
  a string of ASCII characters.\<close>

type_synonym jsstring = "nat list"

definition units :: "string \<Rightarrow> jsstring" where
  "units s = map of_char s"

definition digit_char :: "nat \<Rightarrow> char" where
  "digit_char d = ''0123456789'' ! d"

fun nat_toString :: "nat \<Rightarrow> string" where
  "nat_toString n =
     (if n < 10 then [digit_char n] else nat_toString (n div 10) @ [digit_char (n mod 10)])"

declare nat_toString.simps [simp del]

text \<open>\<^verbatim>\<open>n.toString()\<close> of an integer (below \<open>10^21\<close>, where the source prints all
  digits), and what a template literal prints for the other numbers.\<close>

definition toString :: "int \<Rightarrow> string" where
  "toString i = (if i < 0 then CHR ''-'' # nat_toString (nat (- i)) else nat_toString (nat i))"

fun jsnum_toString :: "jsnum \<Rightarrow> string" where
  "jsnum_toString (Num i) = toString i"
| "jsnum_toString PosInf = ''Infinity''"
| "jsnum_toString NegInf = ''-Infinity''"
| "jsnum_toString NaN = ''NaN''"

text \<open>
  The code units that \<^verbatim>\<open>String.prototype.trim\<close> and \<^verbatim>\<open>parseInt\<close> skip (WhiteSpace and
  LineTerminator of ECMAScript): U+0009 to U+000D, U+0020, U+00A0, U+1680, U+2000 to
  U+200A, U+2028, U+2029, U+202F, U+205F, U+3000 and the byte-order mark U+FEFF.
\<close>

definition is_ws :: "nat \<Rightarrow> bool" where
  "is_ws u =
     ((9 \<le> u \<and> u \<le> 13) \<or> u = 32 \<or> u = 160 \<or> u = 5760 \<or> (8192 \<le> u \<and> u \<le> 8202) \<or>
      u = 8232 \<or> u = 8233 \<or> u = 8239 \<or> u = 8287 \<or> u = 12288 \<or> u = 65279)"

definition trim :: "jsstring \<Rightarrow> jsstring" where
  "trim s = rev (dropWhile is_ws (rev (dropWhile is_ws s)))"

definition is_digit :: "nat \<Rightarrow> bool" where
  "is_digit u = (48 \<le> u \<and> u \<le> 57)"

definition digit_val :: "nat \<Rightarrow> nat" where
  "digit_val u = u - 48"

definition digits_value :: "jsstring \<Rightarrow> nat" where
  "digits_value ds = foldl (\<lambda>acc u. 10 * acc + digit_val u) 0 ds"

text \<open>
  \<^verbatim>\<open>parseInt(s, 10)\<close>: leading white space, an optional sign (\<open>-\<close> is 45, \<open>+\<close> is
  43), then the longest run of decimal digits; \<open>NaN\<close> when that run is empty,
  otherwise the Number value of the integer it denotes. Whatever follows the digits is
  ignored. (Beyond 20 significant digits ECMAScript lets an implementation replace the
  further digits by zeros; the engine of Node converts all of them, as here.)
\<close>

definition parseInt10 :: "jsstring \<Rightarrow> jsnum" where
  "parseInt10 s =
     (let s1 = dropWhile is_ws s;
          neg = (s1 \<noteq> [] \<and> hd s1 = 45);
          s2 = (if s1 \<noteq> [] \<and> (hd s1 = 45 \<or> hd s1 = 43) then tl s1 else s1);
          ds = takeWhile is_digit s2
      in if ds = [] then NaN
         else round_double (if neg then - int (digits_value ds) else int (digits_value ds)))"

subsection \<open>Configuration, state and events\<close>

text \<open>The constants of lines 12, 13 and 41 to 46, and \<^verbatim>\<open>process.platform\<close>.\<close>

record config =
  env :: string
  platform :: string
  API_URL :: string
  CHECK_INTERVAL :: int
  ALLOWED_DIFFERENCE :: int
  TIMEOUT_DURATION :: int
  MIN_REBOOT_INTERVAL :: int

text \<open>\<^verbatim>\<open>safeNumber\<close> on the number that \<^verbatim>\<open>Number(envVar)\<close> gives (\<open>NaN\<close> for an
  unset or non-numeric variable).\<close>

fun safeNumber :: "jsnum \<Rightarrow> int \<Rightarrow> int" where
  "safeNumber (Num n) defaultValue = (if n \<ge> 0 then n else defaultValue)"
| "safeNumber _ defaultValue = defaultValue"

datatype event =
  Log string
| HttpGet
| WriteFile string
| Exec string

text \<open>
  What \<^verbatim>\<open>fs.writeFileSync(file, text)\<close> does when it is called. It opens the file
  with flag \<^verbatim>\<open>w\<close>, which creates or truncates it, then writes, then closes.
  \<open>OpenFails\<close>: the open throws (read-only file system, no permission) and the file
  is as it was. \<open>WriteFails n\<close>: the file has been truncated and \<open>n\<close> code units of
  the text have reached it when the write throws (no space left, I/O error). Each
  failure carries the message of the error.
\<close>

datatype write_result = WriteOk | OpenFails string | WriteFails nat string

text \<open>\<open>guard_file\<close> is what \<^verbatim>\<open>readFileSync\<close> returns for \<^verbatim>\<open>last_reboot.txt\<close>, \<open>None\<close>
  when it throws (no such file, no permission); \<open>fs_write\<close> is what the next
  \<^verbatim>\<open>writeFileSync\<close> will do.\<close>

record state =
  alarm :: bool
  timestamp_alarm :: int
  guard_file :: "jsstring option"
  fs_write :: write_result
  events :: "event list"

definition log :: "string \<Rightarrow> state \<Rightarrow> state" where
  "log msg st = st\<lparr>events := events st @ [Log msg]\<rparr>"

text \<open>Lines 49 and 50: \<^verbatim>\<open>let alarm = false; let timestamp_alarm = 0;\<close>\<close>

definition initial_state :: "jsstring option \<Rightarrow> write_result \<Rightarrow> state" where
  "initial_state file wr =
     \<lparr>alarm = False, timestamp_alarm = 0, guard_file = file, fs_write = wr, events = []\<rparr>"

definition isDevelopmentMode :: "config \<Rightarrow> bool" where
  "isDevelopmentMode cfg = (env cfg = ''development'')"

definition isProductionMode :: "config \<Rightarrow> bool" where
  "isProductionMode cfg = (env cfg = ''production'')"

subsection \<open>The alarm\<close>

text \<open>\<^verbatim>\<open>setAlarm(state)\<close>; \<open>now\<close> is the \<^verbatim>\<open>Date.now()\<close> of line 95.\<close>

definition setAlarm :: "config \<Rightarrow> bool \<Rightarrow> int \<Rightarrow> state \<Rightarrow> state" where
  "setAlarm cfg state_arg now st =
     (if state_arg \<and> \<not> alarm st then
        log ''Alarm timer activated''
          (st\<lparr>alarm := True, timestamp_alarm := now + TIMEOUT_DURATION cfg\<rparr>)
      else if \<not> state_arg \<and> alarm st then
        log ''Alarm deactivated.'' (st\<lparr>alarm := False, timestamp_alarm := 0\<rparr>)
      else st)"

subsection \<open>The drift check\<close>

text \<open>
  What \<^verbatim>\<open>await axios.get(API_URL)\<close> settles to. The promise is rejected (network
  error, status outside 2xx, a timeout reported by the transport) with an error
  message, or fulfilled with a response. Of the response only
  \<^verbatim>\<open>new Date(response.data.timestamp).getTime()\<close> matters: reading \<^verbatim>\<open>.timestamp\<close>
  throws a TypeError (with the given message) when \<^verbatim>\<open>response.data\<close> is undefined or
  null; otherwise \<^verbatim>\<open>getTime()\<close> is a whole number of milliseconds, or \<open>NaN\<close> when the
  field is missing or is not a date the host parses.
\<close>

datatype response_data = NoData string | Data jsnum

datatype outcome = Rejected string | Fulfilled response_data

text \<open>
  \<^verbatim>\<open>checkTimestamp\<close> from the point where the awaited request has settled (before
  that point the function only issues the request, see \<open>interval_callback\<close>).
  \<open>localTimestamp\<close> is the \<^verbatim>\<open>Date.now()\<close> of line 71, \<open>now\<close> the one that
  \<^verbatim>\<open>setAlarm\<close> reads.
\<close>

definition checkTimestamp :: "config \<Rightarrow> outcome \<Rightarrow> int \<Rightarrow> int \<Rightarrow> state \<Rightarrow> state" where
  "checkTimestamp cfg res localTimestamp now st =
     (case res of
        Rejected message \<Rightarrow>
          setAlarm cfg True now (log (''Error getting timestamp from server: '' @ message) st)
      | Fulfilled (NoData message) \<Rightarrow>
          setAlarm cfg True now (log (''Error getting timestamp from server: '' @ message) st)
      | Fulfilled (Data apiTimestamp) \<Rightarrow>
          (let diff = js_abs (js_sub (Num localTimestamp) apiTimestamp) in
           if js_gt diff (Num (ALLOWED_DIFFERENCE cfg)) then
             setAlarm cfg True now
               (log (''Timestamp out of sync ('' @ jsnum_toString diff @ '' ms), setting alarm.'') st)
           else
             setAlarm cfg False now
               (log (''Timestamp OK ('' @ jsnum_toString diff @ '' ms)'') st)))"

subsection \<open>The reboot guard\<close>

text \<open>\<^verbatim>\<open>getLastRebootTimestamp\<close>: \<open>0\<close> when the read throws and when the file holds no
  number.\<close>

definition getLastRebootTimestamp :: "state \<Rightarrow> jsnum" where
  "getLastRebootTimestamp st =
     (case guard_file st of
        Some data \<Rightarrow> js_or_zero (parseInt10 (trim data))
      | None \<Rightarrow> Num 0)"

text \<open>\<^verbatim>\<open>setLastRebootTimestamp\<close>; \<open>now\<close> is the \<^verbatim>\<open>Date.now()\<close> of line 122. A failed
  write is caught and logged; what it leaves in the file depends on where it failed.\<close>

definition setLastRebootTimestamp :: "int \<Rightarrow> state \<Rightarrow> state" where
  "setLastRebootTimestamp now st =
     (case fs_write st of
        WriteOk \<Rightarrow>
          st\<lparr>guard_file := Some (units (toString now)),
             events := events st @ [WriteFile (toString now)]\<rparr>
      | OpenFails message \<Rightarrow> log (''Error writing reboot file: '' @ message) st
      | WriteFails n message \<Rightarrow>
          log (''Error writing reboot file: '' @ message)
            (st\<lparr>guard_file := Some (take n (units (toString now)))\<rparr>))"

definition restart_cmd :: "config \<Rightarrow> string" where
  "restart_cmd cfg =
     (if isDevelopmentMode cfg then
        (if platform cfg = ''win32'' then ''cmd /c echo Win Shutdown'' else ''echo Unix Shutdown'')
      else
        (if platform cfg = ''win32'' then ''shutdown /r /t 60'' else ''sudo shutdown -r +1''))"

text \<open>\<^verbatim>\<open>restartSystem\<close>; \<open>now\<close> is the \<^verbatim>\<open>Date.now()\<close> of line 133, \<open>now_write\<close>
  the one of the write. The difference \<^verbatim>\<open>now - last\<close> is taken exactly; the source
  rounds it when \<open>last\<close> is beyond \<open>2^53\<close>, which leaves the comparison as it is
  (\<open>double_sub_same_decision\<close>). \<^verbatim>\<open>exec\<close> starts the command and returns; its
  callback (\<open>exec_callback\<close>) runs in a later turn of the event loop.\<close>

definition restartSystem :: "config \<Rightarrow> int \<Rightarrow> int \<Rightarrow> state \<Rightarrow> state" where
  "restartSystem cfg now now_write st =
     (let last = getLastRebootTimestamp st in
      if js_lt (js_sub (Num now) last) (Num (MIN_REBOOT_INTERVAL cfg)) then
        log ''Restart skipped: protection interval not met.'' st
      else
        (let st1 = setLastRebootTimestamp now_write st;
             st2 = log ''Restarting system...'' st1
         in st2\<lparr>events := events st2 @ [Exec (restart_cmd cfg)]\<rparr>))"

text \<open>The callback given to \<^verbatim>\<open>exec\<close> (lines 155 to 170): \<open>error\<close> is the message of
  the error, if any; the empty string is falsy.\<close>

definition exec_callback :: "string option \<Rightarrow> string \<Rightarrow> string \<Rightarrow> state \<Rightarrow> state" where
  "exec_callback error stdout stderr st =
     (if error \<noteq> None \<or> stderr \<noteq> [] then
        (let st1 = (case error of
                      Some message \<Rightarrow> log (''Error restarting: '' @ message) st
                    | None \<Rightarrow> st)
         in if stderr \<noteq> [] then log (''Error executing restart: '' @ stderr) st1 else st1)
      else
        (let st1 = log ''Restart command executed.'' st
         in if stdout \<noteq> [] then log stdout st1 else st1))"

subsection \<open>The timer callback\<close>

text \<open>
  The arrow function of \<^verbatim>\<open>setInterval\<close> (lines 186 to 191). It is not an async
  function and does not await: the call \<^verbatim>\<open>checkTimestamp()\<close> runs that function up
  to its first \<^verbatim>\<open>await\<close>, which issues the request and returns a pending promise,
  and the callback goes on to the test of line 188 at once. The rest of
  \<^verbatim>\<open>checkTimestamp\<close> runs in a later turn of the event loop, when the request has
  settled. \<open>t\<close> is the \<^verbatim>\<open>Date.now()\<close> of line 188, and \<open>matured\<close> the
  condition of that line.
\<close>

definition matured :: "state \<Rightarrow> int \<Rightarrow> bool" where
  "matured st t = (alarm st \<and> t \<ge> timestamp_alarm st)"

definition interval_callback :: "config \<Rightarrow> int \<Rightarrow> int \<Rightarrow> int \<Rightarrow> state \<Rightarrow> state" where
  "interval_callback cfg t now now_write st =
     (let st1 = st\<lparr>events := events st @ [HttpGet]\<rparr> in
      if matured st1 t then restartSystem cfg now now_write st1 else st1)"

text \<open>One tick whose own request settles before anything else happens: the callback,
  then the rest of \<^verbatim>\<open>checkTimestamp\<close>.\<close>

definition tick :: "config \<Rightarrow> outcome \<Rightarrow> int \<Rightarrow> int \<Rightarrow> int \<Rightarrow> int \<Rightarrow> int \<Rightarrow> state \<Rightarrow> state" where
  "tick cfg res t now now_write localTimestamp now_alarm st =
     checkTimestamp cfg res localTimestamp now_alarm (interval_callback cfg t now now_write st)"

text \<open>The event loop of the client: timer callbacks, settled requests and finished
  reboot commands, in any order the environment produces them.\<close>

datatype loop_event =
  TimerFired int int int
| Settled outcome int int
| ExecFinished "string option" string string

fun step :: "config \<Rightarrow> state \<Rightarrow> loop_event \<Rightarrow> state" where
  "step cfg st (TimerFired t now now_write) = interval_callback cfg t now now_write st"
| "step cfg st (Settled res localTimestamp now) = checkTimestamp cfg res localTimestamp now st"
| "step cfg st (ExecFinished error stdout stderr) = exec_callback error stdout stderr st"

definition run :: "config \<Rightarrow> loop_event list \<Rightarrow> state \<Rightarrow> state" where
  "run cfg evs st = foldl (step cfg) st evs"

subsection \<open>Program startup\<close>

text \<open>Line 13, \<^verbatim>\<open>process.env.NODE_ENV || "production"\<close>: the variable is \<open>None\<close>
  when unset; \<^verbatim>\<open>undefined\<close> and the empty string are falsy.\<close>

definition env_of :: "string option \<Rightarrow> string" where
  "env_of node_env =
     (case node_env of None \<Rightarrow> ''production'' | Some v \<Rightarrow> (if v = [] then ''production'' else v))"

datatype error = TypeError string

text \<open>\<^verbatim>\<open>startServer\<close> and \<^verbatim>\<open>startClient\<close>, as far as the trace shows them: the
  first log line of each (the lines that print the settings are left out), and for
  the client the request of the immediate \<^verbatim>\<open>checkTimestamp()\<close>, which is not
  awaited either.\<close>

definition startServer :: "state \<Rightarrow> state" where
  "startServer st = log ''Server mode activated.'' st"

definition startClient :: "state \<Rightarrow> state" where
  "startClient st =
     (let st1 = log ''Client mode activated.'' st in st1\<lparr>events := events st1 @ [HttpGet]\<rparr>)"

text \<open>
  Lines 234 to 254. \<open>env\<close> is declared with \<^verbatim>\<open>const\<close>, so the assignment of
  line 247 throws a TypeError when it is executed; nothing catches it, and the lines
  after it do not run. The usage text printed with \<^verbatim>\<open>console.log\<close> when no flag
  is given is left out.
\<close>

definition program_startup :: "config \<Rightarrow> bool \<Rightarrow> bool \<Rightarrow> state \<Rightarrow> (error \<times> state) + state" where
  "program_startup cfg isServer isClient st =
     (if isDevelopmentMode cfg then
        (let st1 = log (''API URL: '' @ API_URL cfg) (log ''Development mode activated.'' st);
             st2 = (if isServer then startServer st1 else st1)
         in Inr (if isClient then startClient st2 else st2))
      else if isProductionMode cfg then
        (let st1 = log (''API URL: '' @ API_URL cfg) (log ''Production mode activated.'' st);
             st2 = (if isServer then startServer st1 else st1)
         in Inr (if isClient then startClient st2 else st2))
      else
        Inl (TypeError ''Assignment to constant variable.'',
             log ''Unknown mode, assuming production mode.'' st))"

subsection \<open>Notions used to state the properties\<close>

text \<open>The message of the error when the write of the guard file fails.\<close>

fun write_failure :: "write_result \<Rightarrow> string option" where
  "write_failure WriteOk = None"
| "write_failure (OpenFails message) = Some message"
| "write_failure (WriteFails n message) = Some message"

text \<open>The source computes \<^verbatim>\<open>now - last\<close> in doubles. \<open>double_sub\<close> is that
  difference with its rounding, for \<open>double_sub_same_decision\<close>.\<close>

fun double_sub :: "int \<Rightarrow> jsnum \<Rightarrow> jsnum" where
  "double_sub a (Num b) = round_double (a - b)"
| "double_sub a x = js_sub (Num a) x"

text \<open>What a call added to the trace.\<close>

definition new_events :: "state \<Rightarrow> state \<Rightarrow> event list" where
  "new_events st st' = drop (length (events st)) (events st')"

fun is_Exec :: "event \<Rightarrow> bool" where
  "is_Exec (Exec cmd) = True"
| "is_Exec _ = False"

text \<open>Whether a call of \<^verbatim>\<open>restartSystem\<close> issued the reboot command.\<close>

definition reboot_issued :: "config \<Rightarrow> int \<Rightarrow> int \<Rightarrow> state \<Rightarrow> bool" where
  "reboot_issued cfg now now_write st =
     list_ex is_Exec (new_events st (restartSystem cfg now now_write st))"

text \<open>The source stores the deadline \<^verbatim>\<open>Date.now() + TIMEOUT_DURATION\<close>, not the
  instant at which the alarm was raised; that instant is the deadline less the
  timeout.\<close>

definition raisedAt :: "config \<Rightarrow> state \<Rightarrow> int" where
  "raisedAt cfg st = timestamp_alarm st - TIMEOUT_DURATION cfg"

text \<open>The invariant of the two alarm variables: the timestamp is non-zero exactly
  while the alarm is active.\<close>

definition alarm_inv :: "state \<Rightarrow> bool" where
  "alarm_inv st = (alarm st = (timestamp_alarm st \<noteq> 0))"

text \<open>An event of the loop whose alarm update, if it raises the alarm, stores a
  non-zero timestamp.\<close>

fun clock_set :: "config \<Rightarrow> loop_event \<Rightarrow> bool" where
  "clock_set cfg (TimerFired t now now_write) = True"
| "clock_set cfg (Settled res localTimestamp now) = (now + TIMEOUT_DURATION cfg \<noteq> 0)"
| "clock_set cfg (ExecFinished error stdout stderr) = True"

text \<open>The argument that \<^verbatim>\<open>checkTimestamp\<close> hands to \<^verbatim>\<open>setAlarm\<close>, and the line
  it logs before (see \<open>checkTimestamp_eq\<close>).\<close>

definition out_of_sync :: "config \<Rightarrow> outcome \<Rightarrow> int \<Rightarrow> bool" where
  "out_of_sync cfg res localTimestamp =
     (case res of
        Rejected message \<Rightarrow> True
      | Fulfilled (NoData message) \<Rightarrow> True
      | Fulfilled (Data apiTimestamp) \<Rightarrow>
          js_gt (js_abs (js_sub (Num localTimestamp) apiTimestamp)) (Num (ALLOWED_DIFFERENCE cfg)))"

definition sample_message :: "config \<Rightarrow> outcome \<Rightarrow> int \<Rightarrow> string" where
  "sample_message cfg res localTimestamp =
     (case res of
        Rejected message \<Rightarrow> ''Error getting timestamp from server: '' @ message
      | Fulfilled (NoData message) \<Rightarrow> ''Error getting timestamp from server: '' @ message
      | Fulfilled (Data apiTimestamp) \<Rightarrow>
          (let diff = js_abs (js_sub (Num localTimestamp) apiTimestamp) in
           if js_gt diff (Num (ALLOWED_DIFFERENCE cfg))
           then ''Timestamp out of sync ('' @ jsnum_toString diff @ '' ms), setting alarm.''
           else ''Timestamp OK ('' @ jsnum_toString diff @ '' ms)''))"

text \<open>
  The cycle in the order the specification gives it (section 4.4: sample, evaluate,
  update the alarm, then the maturity check and the guard), written with the
  functions of the source, to compare \<open>tick\<close> with.
\<close>

definition spec_cycle :: "config \<Rightarrow> outcome \<Rightarrow> int \<Rightarrow> int \<Rightarrow> int \<Rightarrow> int \<Rightarrow> int \<Rightarrow> state \<Rightarrow> state" where
  "spec_cycle cfg res t now now_write localTimestamp now_alarm st =
     (let st1 = checkTimestamp cfg res localTimestamp now_alarm
                  (st\<lparr>events := events st @ [HttpGet]\<rparr>) in
      if matured st1 t then restartSystem cfg now now_write st1 else st1)"

text \<open>The defaults of the source (lines 41 to 46), in production on Linux, and states
  to evaluate the functions on.\<close>

definition default_config :: config where
  "default_config =
     \<lparr>env = ''production'', platform = ''linux'',
      API_URL = ''http://localhost:51823/api/timestamp'',
      CHECK_INTERVAL = safeNumber NaN 60 * 1000,
      ALLOWED_DIFFERENCE = safeNumber NaN 300 * 1000,
      TIMEOUT_DURATION = safeNumber NaN 180 * 1000,
      MIN_REBOOT_INTERVAL = safeNumber NaN 1800 * 1000\<rparr>"

definition armed_state :: "int \<Rightarrow> jsstring option \<Rightarrow> write_result \<Rightarrow> state" where
  "armed_state deadline file wr =
     \<lparr>alarm = True, timestamp_alarm = deadline, guard_file = file, fs_write = wr,
      events = []\<rparr>"

section \<open>Properties\<close>

subsection \<open>Auxiliary facts\<close>

lemma log_simps:
  "alarm (log msg st) = alarm st"
  "timestamp_alarm (log msg st) = timestamp_alarm st"
  "guard_file (log msg st) = guard_file st"
  "fs_write (log msg st) = fs_write st"
  "events (log msg st) = events st @ [Log msg]"
  by (simp_all add: log_def)

lemma setAlarm_unchanged:
  "guard_file (setAlarm cfg b now st) = guard_file st"
  "fs_write (setAlarm cfg b now st) = fs_write st"
  by (simp_all add: setAlarm_def log_simps)

lemma checkTimestamp_eq:
  "checkTimestamp cfg res localTimestamp now st =
     setAlarm cfg (out_of_sync cfg res localTimestamp) now
       (log (sample_message cfg res localTimestamp) st)"
  by (simp add: checkTimestamp_def out_of_sync_def sample_message_def Let_def
      split: outcome.splits response_data.splits)

lemma setAlarm_True_armed: "alarm st \<Longrightarrow> setAlarm cfg True now st = st"
  by (simp add: setAlarm_def)

lemma setAlarm_True_repeated:
  "alarm st \<Longrightarrow> foldl (\<lambda>s n. setAlarm cfg True n s) st ns = st"
  by (induction ns) (simp_all add: setAlarm_True_armed)

lemma digit_char_unit:
  assumes "d < 10"
  shows "(of_char (digit_char d) :: nat) = 48 + d"
proof -
  from assms consider "d = 0" | "d = 1" | "d = 2" | "d = 3" | "d = 4"
    | "d = 5" | "d = 6" | "d = 7" | "d = 8" | "d = 9"
    by atomize_elim arith
  then show ?thesis
    by cases (simp_all add: digit_char_def)
qed

lemma nat_toString_not_Nil: "nat_toString n \<noteq> []"
  by (subst nat_toString.simps) simp

lemma nat_toString_digits: "u \<in> set (units (nat_toString n)) \<Longrightarrow> is_digit u"
proof (induction n arbitrary: u rule: nat_toString.induct)
  case (1 n)
  show ?case
  proof (cases "n < 10")
    case True
    with "1.prems" show ?thesis
      by (subst (asm) nat_toString.simps) (simp add: units_def digit_char_unit is_digit_def)
  next
    case False
    then have "n mod 10 < 10"
      by simp
    with False "1.prems" "1.IH" show ?thesis
      by (subst (asm) nat_toString.simps) (auto simp: units_def digit_char_unit is_digit_def)
  qed
qed

lemma digits_value_snoc: "digits_value (ds @ [u]) = 10 * digits_value ds + digit_val u"
  by (simp add: digits_value_def)

lemma digits_value_nat_toString: "digits_value (units (nat_toString n)) = n"
proof (induction n rule: nat_toString.induct)
  case (1 n)
  show ?case
  proof (cases "n < 10")
    case True
    then show ?thesis
      by (subst nat_toString.simps)
        (simp add: units_def digits_value_def digit_val_def digit_char_unit)
  next
    case False
    then have "n mod 10 < 10"
      by simp
    with False "1.IH" show ?thesis
      by (subst nat_toString.simps)
        (simp add: units_def digits_value_snoc digit_val_def digit_char_unit)
  qed
qed

lemma is_digit_facts:
  assumes "is_digit u"
  shows "\<not> is_ws u" and "u \<noteq> 45" and "u \<noteq> 43"
  using assms by (auto simp: is_digit_def is_ws_def)

lemma trim_id:
  assumes "s \<noteq> []" and "\<not> is_ws (hd s)" and "\<not> is_ws (last s)"
  shows "trim s = s"
proof -
  have "dropWhile is_ws s = s"
    using assms by (simp add: dropWhile_eq_self_iff)
  moreover have "dropWhile is_ws (rev s) = rev s"
    using assms by (simp add: dropWhile_eq_self_iff hd_rev)
  ultimately show ?thesis
    by (simp add: trim_def)
qed

lemma parseInt10_digits:
  assumes "ds \<noteq> []" and "\<forall>u\<in>set ds. is_digit u"
  shows "parseInt10 ds = round_double (int (digits_value ds))"
    and "parseInt10 (45 # ds) = round_double (- int (digits_value ds))"
proof -
  from assms have hd: "is_digit (hd ds)"
    by simp
  have tw: "takeWhile is_digit ds = ds"
    using assms by (simp add: takeWhile_eq_all_conv)
  have dw: "dropWhile is_ws ds = ds"
    using assms hd by (simp add: dropWhile_eq_self_iff is_digit_facts)
  show "parseInt10 ds = round_double (int (digits_value ds))"
    using assms hd by (simp add: parseInt10_def Let_def tw dw is_digit_facts)
  have "\<not> is_ws 45"
    by (simp add: is_ws_def)
  then show "parseInt10 (45 # ds) = round_double (- int (digits_value ds))"
    using assms by (simp add: parseInt10_def Let_def tw)
qed

lemma parseInt10_toString: "parseInt10 (trim (units (toString i))) = round_double i"
proof (cases "i < 0")
  case True
  let ?ds = "units (nat_toString (nat (- i)))"
  have ne: "?ds \<noteq> []"
    by (simp add: units_def nat_toString_not_Nil)
  have "is_digit (last ?ds)"
    by (rule nat_toString_digits [OF last_in_set [OF ne]])
  then have "\<not> is_ws (last ?ds)"
    by (rule is_digit_facts)
  moreover have "\<not> is_ws 45"
    by (simp add: is_ws_def)
  ultimately have "trim (45 # ?ds) = 45 # ?ds"
    using ne by (intro trim_id) simp_all
  with True ne show ?thesis
    by (simp add: toString_def units_def parseInt10_digits [unfolded units_def]
        nat_toString_digits [unfolded units_def] digits_value_nat_toString [unfolded units_def])
next
  case False
  let ?ds = "units (nat_toString (nat i))"
  have ne: "?ds \<noteq> []"
    by (simp add: units_def nat_toString_not_Nil)
  have "is_digit (hd ?ds)"
    by (rule nat_toString_digits [OF hd_in_set [OF ne]])
  moreover have "is_digit (last ?ds)"
    by (rule nat_toString_digits [OF last_in_set [OF ne]])
  ultimately have "trim ?ds = ?ds"
    using ne by (intro trim_id) (simp_all add: is_digit_facts)
  with False ne show ?thesis
    by (simp add: toString_def parseInt10_digits nat_toString_digits digits_value_nat_toString)
qed

lemma round_double_small: "\<bar>i\<bar> < 9007199254740992 \<Longrightarrow> round_double i = Num i"
proof -
  assume "\<bar>i\<bar> < 9007199254740992"
  then have "nat \<bar>i\<bar> < 9007199254740992"
    by linarith
  then show ?thesis
    by (simp only: round_double_def Let_def if_True)
qed

lemma getLastRebootTimestamp_written:
  assumes "guard_file st = Some (units (toString i))" and "\<bar>i\<bar> < 9007199254740992"
  shows "getLastRebootTimestamp st = Num i"
  using assms by (simp add: getLastRebootTimestamp_def parseInt10_toString round_double_small)

lemma getLastRebootTimestamp_unreadable:
  "guard_file st = None \<Longrightarrow> getLastRebootTimestamp st = Num 0"
  by (simp add: getLastRebootTimestamp_def)

lemma getLastRebootTimestamp_no_number:
  "guard_file st = Some data \<Longrightarrow> parseInt10 (trim data) = NaN \<Longrightarrow>
     getLastRebootTimestamp st = Num 0"
  by (simp add: getLastRebootTimestamp_def)

lemma js_or_zero_not_NaN: "js_or_zero x \<noteq> NaN"
  by (cases x) simp_all

lemma getLastRebootTimestamp_not_NaN: "getLastRebootTimestamp st \<noteq> NaN"
  by (simp add: getLastRebootTimestamp_def js_or_zero_not_NaN split: option.splits)

lemma restartSystem_denied:
  assumes "js_lt (js_sub (Num now) (getLastRebootTimestamp st)) (Num (MIN_REBOOT_INTERVAL cfg))"
  shows "restartSystem cfg now now_write st =
           log ''Restart skipped: protection interval not met.'' st"
  using assms by (simp add: restartSystem_def Let_def)

lemma restartSystem_permitted:
  assumes "\<not> js_lt (js_sub (Num now) (getLastRebootTimestamp st)) (Num (MIN_REBOOT_INTERVAL cfg))"
  shows "events (restartSystem cfg now now_write st) =
           events st @
             [case write_failure (fs_write st) of
                None \<Rightarrow> WriteFile (toString now_write)
              | Some message \<Rightarrow> Log (''Error writing reboot file: '' @ message),
              Log ''Restarting system...'', Exec (restart_cmd cfg)]"
    and "fs_write st = WriteOk \<Longrightarrow>
           guard_file (restartSystem cfg now now_write st) = Some (units (toString now_write))"
  using assms
  by (simp_all add: restartSystem_def Let_def setLastRebootTimestamp_def log_def
      split: write_result.splits)

lemma restartSystem_alarm:
  "alarm (restartSystem cfg now now_write st) = alarm st"
  "timestamp_alarm (restartSystem cfg now now_write st) = timestamp_alarm st"
  by (simp_all add: restartSystem_def Let_def setLastRebootTimestamp_def log_def
      split: write_result.splits)

lemma alarm_inv_log: "alarm_inv (log msg st) = alarm_inv st"
  by (simp add: alarm_inv_def log_simps)

lemma alarm_inv_exec_callback:
  "alarm_inv (exec_callback error stdout stderr st) = alarm_inv st"
  by (simp add: exec_callback_def Let_def alarm_inv_log split: option.splits)

lemma events_checkTimestamp_no_Exec:
  "filter is_Exec (events (checkTimestamp cfg res localTimestamp now st)) =
     filter is_Exec (events st)"
  by (simp add: checkTimestamp_eq setAlarm_def log_simps)

text \<open>Whether a tick issues the reboot command does not depend on its own sample.\<close>

lemma tick_decision_ignores_sample:
  "filter is_Exec (events (tick cfg res t now now_write localTimestamp now_alarm st)) =
     filter is_Exec (events (interval_callback cfg t now now_write st))"
  by (simp add: tick_def events_checkTimestamp_no_Exec)

lemma alarm_inv_interval_callback:
  "alarm_inv (interval_callback cfg t now now_write st) = alarm_inv st"
  by (simp add: interval_callback_def Let_def alarm_inv_def restartSystem_alarm)

lemma reboot_issued_iff:
  "reboot_issued cfg now now_write st \<longleftrightarrow>
     \<not> js_lt (js_sub (Num now) (getLastRebootTimestamp st)) (Num (MIN_REBOOT_INTERVAL cfg))"
proof (cases "js_lt (js_sub (Num now) (getLastRebootTimestamp st)) (Num (MIN_REBOOT_INTERVAL cfg))")
  case True
  then show ?thesis
    by (simp add: reboot_issued_def new_events_def restartSystem_denied log_simps)
next
  case False
  then show ?thesis
    by (simp add: reboot_issued_def new_events_def restartSystem_permitted(1))
qed

lemma bitlen_upper: "n < 2 ^ bitlen n"
proof (induction n rule: bitlen.induct)
  case (1 n)
  show ?case
  proof (cases "n = 0")
    case True
    then show ?thesis by simp
  next
    case False
    with 1 have "n div 2 < 2 ^ bitlen (n div 2)"
      by simp
    then have "n < 2 * 2 ^ bitlen (n div 2)"
      by linarith
    with False show ?thesis
      by (subst bitlen.simps) simp
  qed
qed

lemma bitlen_lower: "0 < n \<Longrightarrow> 2 ^ (bitlen n - 1) \<le> n"
proof (induction n rule: bitlen.induct)
  case (1 n)
  show ?case
  proof (cases "n div 2 = 0")
    case True
    with "1.prems" have "bitlen n = 1"
      by (subst bitlen.simps, subst bitlen.simps) simp
    with "1.prems" show ?thesis
      by simp
  next
    case False
    with 1 have ih: "2 ^ (bitlen (n div 2) - 1) \<le> n div 2"
      by simp
    from False have pos: "0 < bitlen (n div 2)"
      by (subst bitlen.simps) simp
    have "bitlen n = Suc (bitlen (n div 2))"
      using "1.prems" by (subst bitlen.simps) simp
    then have "2 ^ (bitlen n - 1) = (2::nat) * 2 ^ (bitlen (n div 2) - 1)"
      using pos by (cases "bitlen (n div 2)") simp_all
    also have "\<dots> \<le> 2 * (n div 2)"
      using ih by simp
    also have "\<dots> \<le> n"
      by simp
    finally show ?thesis .
  qed
qed

lemma rounded_magnitude_large:
  fixes m :: nat
  assumes "9007199254740992 \<le> m"
  defines "e \<equiv> bitlen m - 53"
  shows "9007199254740992 \<le> (m div 2 ^ e) * 2 ^ e"
proof -
  have p53: "(9007199254740992::nat) = 2 ^ 53"
    by simp
  have "m < 2 ^ bitlen m"
    by (rule bitlen_upper)
  with assms(1) have "(2::nat) ^ 53 < 2 ^ bitlen m"
    unfolding p53 by linarith
  then have b: "53 < bitlen m"
    by (simp only: power_strict_increasing_iff) 
  then have bl: "bitlen m - 1 = 52 + e"
    by (simp add: e_def)
  from assms(1) have "0 < m"
    by simp
  then have "2 ^ (52 + e) \<le> m"
    using bitlen_lower [of m] bl by simp
  then have "(2 ^ (52 + e)) div 2 ^ e \<le> m div 2 ^ e"
    by (rule div_le_mono)
  then have q: "2 ^ 52 \<le> m div 2 ^ e"
    by (simp add: power_add)
  have "1 \<le> e"
    using b by (simp add: e_def)
  then have "(2::nat) ^ 1 \<le> 2 ^ e"
    by (intro power_increasing) simp_all
  then have "(2::nat) ^ 52 * 2 ^ 1 \<le> (m div 2 ^ e) * 2 ^ e"
    using q by (intro mult_le_mono)
  then show ?thesis
    unfolding p53 by simp
qed

lemma round_double_large:
  assumes "9007199254740992 \<le> \<bar>i\<bar>"
  shows "(0 < i \<longrightarrow> round_double i = PosInf \<or> (\<exists>v\<ge>9007199254740992. round_double i = Num v)) \<and>
         (i < 0 \<longrightarrow> round_double i = NegInf \<or> (\<exists>v\<le>- 9007199254740992. round_double i = Num v))"
proof -
  define m where "m = nat \<bar>i\<bar>"
  define e where "e = bitlen m - 53"
  define q where "q = m div 2 ^ e"
  define q' where "q' = (if 2 * (m mod 2 ^ e) > 2 ^ e \<or> (2 * (m mod 2 ^ e) = 2 ^ e \<and> odd q)
                         then q + 1 else q)"
  from assms have large: "9007199254740992 \<le> m"
    by (simp add: m_def)
  then have "9007199254740992 \<le> q * 2 ^ e"
    unfolding q_def e_def by (rule rounded_magnitude_large)
  moreover have "q * 2 ^ e \<le> q' * 2 ^ e"
    by (simp add: q'_def)
  ultimately have v: "9007199254740992 \<le> q' * 2 ^ e"
    by linarith
  from large have rd: "round_double i =
      (if q' * 2 ^ e \<ge> 2 ^ 1024 then (if i < 0 then NegInf else PosInf)
       else Num (if i < 0 then - int (q' * 2 ^ e) else int (q' * 2 ^ e)))"
    unfolding round_double_def Let_def m_def [symmetric] e_def [symmetric] q_def [symmetric]
      q'_def [symmetric]
    by simp
  from v have "9007199254740992 \<le> int (q' * 2 ^ e)"
    by linarith
  with rd show ?thesis
    by auto
qed

text \<open>The source computes \<^verbatim>\<open>now - last\<close> in doubles, so that a difference beyond
  \<open>2^53\<close> is rounded. For an interval below \<open>2^53\<close> the comparison comes out the
  same on the exact difference, which is what \<open>restartSystem\<close> compares.\<close>

lemma double_sub_same_decision:
  assumes "\<bar>M\<bar> < 9007199254740992"
  shows "js_lt (double_sub a x) (Num M) = js_lt (js_sub (Num a) x) (Num M)"
proof (cases x)
  case (Num b)
  consider "\<bar>a - b\<bar> < 9007199254740992" | "9007199254740992 \<le> a - b"
    | "a - b \<le> - 9007199254740992"
    by linarith
  then show ?thesis
  proof cases
    case 1
    with Num show ?thesis
      by (simp add: round_double_small)
  next
    case 2
    then have "round_double (a - b) = PosInf \<or>
        (\<exists>v\<ge>9007199254740992. round_double (a - b) = Num v)"
      using round_double_large [of "a - b"] by simp
    with 2 assms Num show ?thesis
      by auto
  next
    case 3
    then have "round_double (a - b) = NegInf \<or>
        (\<exists>v\<le>- 9007199254740992. round_double (a - b) = Num v)"
      using round_double_large [of "a - b"] by simp
    with 3 assms Num show ?thesis
      by auto
  qed
qed simp_all

text \<open>The guard file read back: a byte-order mark and a no-break space around the
  digits are skipped, and a number beyond \<open>2^53\<close> is rounded to the nearest double.\<close>

lemma getLastRebootTimestamp_examples:
  "getLastRebootTimestamp
     (initial_state (Some (65279 # units ''1700000000000'' @ [160, 10])) WriteOk) =
     Num 1700000000000"
  "getLastRebootTimestamp (initial_state (Some (units ''9007199254740993'')) WriteOk) =
     Num 9007199254740992"
  "getLastRebootTimestamp (initial_state (Some (units ''last reboot: never'')) WriteOk) = Num 0"
  by (simp_all add: getLastRebootTimestamp_def initial_state_def units_def parseInt10_def
      trim_def is_ws_def is_digit_def digits_value_def digit_val_def round_double_def
      bitlen.simps Let_def)

lemma restartSystem_record_read_back:
  assumes "reboot_issued cfg now now_write st" and "fs_write st = WriteOk"
    and "\<bar>now_write\<bar> < 9007199254740992"
  shows "getLastRebootTimestamp (restartSystem cfg now now_write st) = Num now_write"
  using assms
  by (simp add: reboot_issued_iff restartSystem_permitted(2) getLastRebootTimestamp_written)

lemma restartSystem_events_no_number:
  assumes "guard_file st = None" and "parseInt10 (trim data) = NaN"
  shows "events (restartSystem cfg now now_write (st\<lparr>guard_file := Some data\<rparr>)) =
         events (restartSystem cfg now now_write st)"
  using assms
  by (simp add: restartSystem_def getLastRebootTimestamp_def Let_def setLastRebootTimestamp_def
      log_def split: write_result.splits)

subsection \<open>The drift check\<close>

text \<open>
  Claim C1. A reference call that fails, or a payload that is malformed, must give an
  out-of-sync sample and never an in-sync one; in particular a response whose
  timestamp does not parse to a valid instant. The source does so for a rejected
  request and for a response without data (both reach the \<^verbatim>\<open>catch\<close>), but not for
  a timestamp that does not parse: \<^verbatim>\<open>getTime()\<close> is \<open>NaN\<close>, the difference is
  \<open>NaN\<close>, \<^verbatim>\<open>NaN > ALLOWED_DIFFERENCE\<close> is false, and the \<^verbatim>\<open>else\<close> branch logs
  "Timestamp OK (NaN ms)" and calls \<^verbatim>\<open>setAlarm(false)\<close>. Evaluated on an armed alarm:
  the sample disarms it.
\<close>

theorem checkTimestamp_unparsable_timestamp_disarms:
  "checkTimestamp default_config (Fulfilled (Data NaN)) 1700000000000 1700000000001
     (armed_state 1700000180000 None WriteOk) =
   \<lparr>alarm = False, timestamp_alarm = 0, guard_file = None, fs_write = WriteOk,
    events = [Log ''Timestamp OK (NaN ms)'', Log ''Alarm deactivated.'']\<rparr>"
  by (simp add: checkTimestamp_def setAlarm_def log_def armed_state_def)

text \<open>
  Claim C7. For a reference time that is a valid instant, with
  \<open>diff = \<bar>localTimestamp - referenceTime\<bar>\<close>: the sample is in-sync when
  \<open>diff \<le> ALLOWED_DIFFERENCE\<close> (the boundary included) and out-of-sync when
  \<open>diff > ALLOWED_DIFFERENCE\<close>. The classification is a function of the three
  numbers alone; what \<^verbatim>\<open>checkTimestamp\<close> does to the state is the log line and the
  call of \<^verbatim>\<open>setAlarm\<close> with that classification, and nothing else (the guard file
  is not touched).
\<close>

theorem checkTimestamp_classifies_drift:
  "(\<bar>localTimestamp - referenceTime\<bar> \<le> ALLOWED_DIFFERENCE cfg \<longrightarrow>
      \<not> out_of_sync cfg (Fulfilled (Data (Num referenceTime))) localTimestamp \<and>
      checkTimestamp cfg (Fulfilled (Data (Num referenceTime))) localTimestamp now st =
        setAlarm cfg False now
          (log (''Timestamp OK ('' @ toString \<bar>localTimestamp - referenceTime\<bar> @ '' ms)'') st)) \<and>
   (\<bar>localTimestamp - referenceTime\<bar> > ALLOWED_DIFFERENCE cfg \<longrightarrow>
      out_of_sync cfg (Fulfilled (Data (Num referenceTime))) localTimestamp \<and>
      checkTimestamp cfg (Fulfilled (Data (Num referenceTime))) localTimestamp now st =
        setAlarm cfg True now
          (log (''Timestamp out of sync ('' @ toString \<bar>localTimestamp - referenceTime\<bar>
                 @ '' ms), setting alarm.'') st)) \<and>
   guard_file (checkTimestamp cfg (Fulfilled (Data (Num referenceTime))) localTimestamp now st)
     = guard_file st \<and>
   fs_write (checkTimestamp cfg (Fulfilled (Data (Num referenceTime))) localTimestamp now st)
     = fs_write st"
  by (simp add: checkTimestamp_def out_of_sync_def Let_def setAlarm_unchanged log_simps)

theorem checkTimestamp_classifies_drift_witness:
  "\<not> out_of_sync default_config (Fulfilled (Data (Num 1700000000000))) 1700000300000 \<and>
   out_of_sync default_config (Fulfilled (Data (Num 1700000000000))) 1700000300001 \<and>
   alarm (checkTimestamp default_config (Fulfilled (Data (Num 1700000000000))) 1700000300001
            1700000300002 (initial_state None WriteOk)) \<and>
   \<not> alarm (checkTimestamp default_config (Fulfilled (Data (Num 1700000000000))) 1700000300000
            1700000300002 (armed_state 5 None WriteOk))"
  using checkTimestamp_classifies_drift
      [of 1700000300000 1700000000000 default_config 1700000300002 "armed_state 5 None WriteOk"]
    checkTimestamp_classifies_drift
      [of 1700000300001 1700000000000 default_config 1700000300002 "initial_state None WriteOk"]
  by (simp add: default_config_def setAlarm_def log_def initial_state_def armed_state_def)

subsection \<open>The alarm\<close>

text \<open>
  Claim C5. The transitions of the alarm: from Clear an out-of-sync sample arms it
  with \<open>raisedAt = now\<close>; from Armed an in-sync sample clears it, whatever the time
  and however long it was armed; from Armed an out-of-sync sample changes nothing;
  from Clear an in-sync sample changes nothing.
\<close>

theorem setAlarm_transitions:
  "(\<not> alarm st \<longrightarrow>
      alarm (setAlarm cfg True now st) \<and> raisedAt cfg (setAlarm cfg True now st) = now) \<and>
   (alarm st \<longrightarrow>
      \<not> alarm (setAlarm cfg False now st) \<and> timestamp_alarm (setAlarm cfg False now st) = 0) \<and>
   (alarm st \<longrightarrow> setAlarm cfg True now st = st) \<and>
   (\<not> alarm st \<longrightarrow> setAlarm cfg False now st = st)"
  by (simp add: setAlarm_def raisedAt_def log_simps)

theorem setAlarm_transitions_witness:
  "alarm (setAlarm default_config True 1700000000000 (initial_state None WriteOk)) \<and>
   raisedAt default_config (setAlarm default_config True 1700000000000 (initial_state None WriteOk))
     = 1700000000000 \<and>
   \<not> alarm (setAlarm default_config False 1800000000000 (armed_state 1700000180000 None WriteOk)) \<and>
   setAlarm default_config True 1800000000000 (armed_state 1700000180000 None WriteOk)
     = armed_state 1700000180000 None WriteOk \<and>
   setAlarm default_config False 1700000000000 (initial_state None WriteOk)
     = initial_state None WriteOk"
  using setAlarm_transitions [of "initial_state None WriteOk" default_config 1700000000000]
    setAlarm_transitions [of "armed_state 1700000180000 None WriteOk" default_config 1800000000000]
  by (simp add: initial_state_def armed_state_def)

text \<open>
  Claim C6. An alarm raised at \<open>raisedAt\<close> from Clear is matured at \<open>t\<close> if and only
  if \<open>t \<ge> raisedAt + TIMEOUT_DURATION\<close>, and any number of further out-of-sync
  samples, at any times, moves neither \<open>raisedAt\<close> nor the maturity instant.
\<close>

theorem matured_iff_deadline:
  assumes "\<not> alarm st"
  shows "(matured (foldl (\<lambda>s n. setAlarm cfg True n s) (setAlarm cfg True r st) ns) t
            \<longleftrightarrow> t \<ge> r + TIMEOUT_DURATION cfg) \<and>
         raisedAt cfg (foldl (\<lambda>s n. setAlarm cfg True n s) (setAlarm cfg True r st) ns) = r"
proof -
  have armed: "alarm (setAlarm cfg True r st)"
    using assms by (simp add: setAlarm_def log_simps)
  have "timestamp_alarm (setAlarm cfg True r st) = r + TIMEOUT_DURATION cfg"
    using assms by (simp add: setAlarm_def log_simps)
  with armed show ?thesis
    by (simp add: setAlarm_True_repeated matured_def raisedAt_def)
qed

theorem matured_iff_deadline_witness:
  "\<not> alarm (initial_state None WriteOk) \<and>
   \<not> matured (foldl (\<lambda>s n. setAlarm default_config True n s)
               (setAlarm default_config True 1700000000000 (initial_state None WriteOk))
               [1700000060000, 1700000120000]) 1700000179999 \<and>
   matured (foldl (\<lambda>s n. setAlarm default_config True n s)
               (setAlarm default_config True 1700000000000 (initial_state None WriteOk))
               [1700000060000, 1700000120000]) 1700000180000"
  using matured_iff_deadline [of "initial_state None WriteOk" default_config 1700000000000
      "[1700000060000, 1700000120000]" 1700000179999]
    matured_iff_deadline [of "initial_state None WriteOk" default_config 1700000000000
      "[1700000060000, 1700000120000]" 1700000180000]
  by (simp add: initial_state_def default_config_def)

text \<open>
  Claim C8, as stated: the invariant of the alarm variables (the timestamp is set,
  that is non-zero, exactly while the alarm is active) is preserved by every alarm
  update. It fails for the update that arms the alarm when
  \<^verbatim>\<open>Date.now() + TIMEOUT_DURATION\<close> is \<open>0\<close>: with \<^verbatim>\<open>TIMEOUT_DURATION=0\<close>, which
  \<open>safeNumber\<close> accepts, and a clock that reads the epoch, the alarm is active and
  its timestamp is \<open>0\<close>.
\<close>

theorem alarm_armed_with_zero_timestamp:
  "alarm_inv (initial_state None WriteOk) \<and>
   alarm (setAlarm (default_config\<lparr>TIMEOUT_DURATION := safeNumber (Num 0) 180 * 1000\<rparr>) True 0
            (initial_state None WriteOk)) \<and>
   timestamp_alarm (setAlarm (default_config\<lparr>TIMEOUT_DURATION := safeNumber (Num 0) 180 * 1000\<rparr>)
            True 0 (initial_state None WriteOk)) = 0 \<and>
   \<not> alarm_inv (setAlarm (default_config\<lparr>TIMEOUT_DURATION := safeNumber (Num 0) 180 * 1000\<rparr>)
            True 0 (initial_state None WriteOk))"
  by (simp add: alarm_inv_def setAlarm_def log_def initial_state_def default_config_def)

text \<open>
  Claim C8, amended. The invariant holds in the initial state, and an alarm update
  preserves it in every case but one: the update that arms the alarm at a clock
  reading with \<open>now + TIMEOUT_DURATION = 0\<close>. So every update at a clock reading
  after the epoch preserves it (the durations are non-negative), and it holds along
  every run of the event loop whose samples settle at such readings. While the alarm
  stays active its timestamp does not change.
\<close>

theorem alarm_inv_preserved:
  "alarm_inv (initial_state file wr) \<and>
   (alarm_inv st \<longrightarrow>
      (alarm_inv (setAlarm cfg b now st) \<longleftrightarrow>
         \<not> (b \<and> \<not> alarm st \<and> now + TIMEOUT_DURATION cfg = 0))) \<and>
   (alarm st \<and> alarm (setAlarm cfg b now st) \<longrightarrow>
      timestamp_alarm (setAlarm cfg b now st) = timestamp_alarm st) \<and>
   (alarm_inv st \<and> list_all (clock_set cfg) evs \<longrightarrow> alarm_inv (run cfg evs st))"
proof -
  have init: "alarm_inv (initial_state file wr)"
    by (simp add: alarm_inv_def initial_state_def)
  have exact: "alarm_inv (setAlarm cfg b now st) \<longleftrightarrow>
      \<not> (b \<and> \<not> alarm st \<and> now + TIMEOUT_DURATION cfg = 0)" if "alarm_inv st"
    using that by (auto simp: alarm_inv_def setAlarm_def log_simps)
  have upd: "alarm_inv (setAlarm cfg b n s)" if "alarm_inv s" and "n + TIMEOUT_DURATION cfg \<noteq> 0"
    for b n s
    using that by (simp add: alarm_inv_def setAlarm_def log_simps)
  have keep: "timestamp_alarm (setAlarm cfg b now st) = timestamp_alarm st"
    if "alarm st" and "alarm (setAlarm cfg b now st)"
    using that by (simp add: setAlarm_def log_simps split: if_splits)
  have stp: "alarm_inv (step cfg s e)" if "alarm_inv s" and "clock_set cfg e" for s e
  proof (cases e)
    case (TimerFired t n nw)
    with that show ?thesis
      by (simp add: alarm_inv_interval_callback)
  next
    case (Settled res lt n)
    with that show ?thesis
      by (simp add: checkTimestamp_eq upd alarm_inv_log)
  next
    case (ExecFinished error out err)
    with that show ?thesis
      by (simp add: alarm_inv_exec_callback)
  qed
  have "alarm_inv (run cfg evs s)" if "alarm_inv s" and "list_all (clock_set cfg) evs" for s
    using that unfolding run_def
    by (induction evs arbitrary: s) (simp_all add: stp)
  with init exact keep show ?thesis
    by blast
qed

theorem alarm_inv_preserved_witness:
  "alarm_inv (initial_state None WriteOk) \<and>
   alarm_inv (setAlarm default_config True 1700000000000 (initial_state None WriteOk)) \<and>
   alarm_inv (run default_config
      [TimerFired 1700000000000 1700000000000 1700000000000,
       Settled (Rejected ''timeout'') 1700000000500 1700000000500,
       TimerFired 1700000060000 1700000060000 1700000060000,
       Settled (Fulfilled (Data (Num 1700000060000))) 1700000060020 1700000060020]
      (initial_state None WriteOk))"
  using alarm_inv_preserved [of None WriteOk "initial_state None WriteOk" default_config True
      1700000000000
      "[TimerFired 1700000000000 1700000000000 1700000000000,
        Settled (Rejected ''timeout'') 1700000000500 1700000000500,
        TimerFired 1700000060000 1700000060000 1700000060000,
        Settled (Fulfilled (Data (Num 1700000060000))) 1700000060020 1700000060020]"]
  by (simp add: default_config_def)

subsection \<open>The reboot guard\<close>

text \<open>
  Claim C4, as stated: the guard permits if and only if
  \<open>now - lastRebootAt \<ge> minRebootInterval\<close>, or no prior reboot is recorded. The
  second half fails: with no record the source takes \<open>lastRebootAt = 0\<close> and still
  compares, so a clock that reads less than \<open>MIN_REBOOT_INTERVAL\<close> (one second after
  the epoch here, with the default of 30 minutes) is denied although nothing is
  recorded.
\<close>

theorem reboot_denied_without_record:
  "guard_file (initial_state None WriteOk) = None \<and>
   \<not> reboot_issued default_config 1000 1000 (initial_state None WriteOk) \<and>
   events (restartSystem default_config 1000 1000 (initial_state None WriteOk)) =
     [Log ''Restart skipped: protection interval not met.'']"
  by (simp add: reboot_issued_def new_events_def restartSystem_def getLastRebootTimestamp_def
      log_def initial_state_def default_config_def)

text \<open>
  Claim C4, amended. With \<open>lastRebootAt\<close> the number that
  \<^verbatim>\<open>getLastRebootTimestamp\<close> returns, which is \<open>0\<close> when no reboot is recorded, the
  guard issues the reboot command if and only if
  \<open>now - lastRebootAt \<ge> MIN_REBOOT_INTERVAL\<close>: it denies strictly inside the window
  and permits from the boundary on. With no record it permits if and only if
  \<open>now \<ge> MIN_REBOOT_INTERVAL\<close>. (A record of digits beyond the range of the doubles
  reads as an infinity, for which the same comparison denies when it is positive and
  permits when it is negative; the number read is never \<open>NaN\<close>.)
\<close>

theorem reboot_guard_permits_iff:
  "(getLastRebootTimestamp st = Num lastRebootAt \<longrightarrow>
      (reboot_issued cfg now now_write st \<longleftrightarrow>
         now - lastRebootAt \<ge> MIN_REBOOT_INTERVAL cfg) \<and>
      (now - lastRebootAt = MIN_REBOOT_INTERVAL cfg \<longrightarrow> reboot_issued cfg now now_write st)) \<and>
   (guard_file st = None \<longrightarrow>
      getLastRebootTimestamp st = Num 0 \<and>
      (reboot_issued cfg now now_write st \<longleftrightarrow> now \<ge> MIN_REBOOT_INTERVAL cfg)) \<and>
   (getLastRebootTimestamp st = PosInf \<longrightarrow> \<not> reboot_issued cfg now now_write st) \<and>
   (getLastRebootTimestamp st = NegInf \<longrightarrow> reboot_issued cfg now now_write st) \<and>
   getLastRebootTimestamp st \<noteq> NaN"
  by (auto simp: reboot_issued_iff getLastRebootTimestamp_unreadable
      getLastRebootTimestamp_not_NaN)

theorem reboot_guard_permits_iff_witness:
  "\<not> reboot_issued default_config 1700001799999 1700001799999
       (initial_state (Some (units ''1700000000000'')) WriteOk) \<and>
   reboot_issued default_config 1700001800000 1700001800000
       (initial_state (Some (units ''1700000000000'')) WriteOk) \<and>
   reboot_issued default_config 1700000000000 1700000000000 (initial_state None WriteOk) \<and>
   \<not> reboot_issued default_config 1799999 1799999 (initial_state None WriteOk)"
  using reboot_guard_permits_iff [of "initial_state (Some (units ''1700000000000'')) WriteOk"
      1700000000000 default_config 1700001799999 1700001799999]
    reboot_guard_permits_iff [of "initial_state (Some (units ''1700000000000'')) WriteOk"
      1700000000000 default_config 1700001800000 1700001800000]
    reboot_guard_permits_iff [of "initial_state None WriteOk" 0 default_config
      1700000000000 1700000000000]
    reboot_guard_permits_iff [of "initial_state None WriteOk" 0 default_config 1799999 1799999]
  by (simp add: getLastRebootTimestamp_def initial_state_def default_config_def units_def
      parseInt10_def trim_def is_ws_def is_digit_def digits_value_def digit_val_def
      round_double_def)

text \<open>
  Claim C3, as stated: on every path on which the reboot command is issued, the
  persisted record has been written, updated to the current time, before. It fails on
  the paths where \<^verbatim>\<open>writeFileSync\<close> throws: the error is caught and logged and the
  command is issued, with a record that does not hold the current time. Here the
  write fails after the file has been truncated (no space left on the device), so the
  record of the previous reboot is lost as well.
\<close>

theorem reboot_issued_with_record_unwritten:
  "events (restartSystem default_config 1700003600000 1700003600001
             (armed_state 1700000180000 (Some (units ''1700000000000''))
                (WriteFails 0 ''ENOSPC: no space left on device, write''))) =
     [Log ''Error writing reboot file: ENOSPC: no space left on device, write'',
      Log ''Restarting system...'', Exec ''sudo shutdown -r +1''] \<and>
   guard_file (restartSystem default_config 1700003600000 1700003600001
             (armed_state 1700000180000 (Some (units ''1700000000000''))
                (WriteFails 0 ''ENOSPC: no space left on device, write''))) = Some []"
  by (simp add: restartSystem_def setLastRebootTimestamp_def getLastRebootTimestamp_def
      log_def armed_state_def default_config_def restart_cmd_def isDevelopmentMode_def
      units_def parseInt10_def trim_def is_ws_def is_digit_def digits_value_def digit_val_def
      round_double_def)

text \<open>
  Claim C3, amended. Whenever the reboot command is issued, the write of the record
  has been attempted before it, on every path through \<^verbatim>\<open>restartSystem\<close>, and the
  command is the last thing the routine does. When the write succeeds, the record holds
  the current time (the clock reading of the write) before the command is issued; when
  the write fails, the failure is logged and the command is still issued.
\<close>

theorem restartSystem_write_then_exec:
  "(reboot_issued cfg now now_write st \<and> fs_write st = WriteOk \<longrightarrow>
      events (restartSystem cfg now now_write st) =
        events st @ [WriteFile (toString now_write), Log ''Restarting system...'',
                     Exec (restart_cmd cfg)] \<and>
      guard_file (restartSystem cfg now now_write st) = Some (units (toString now_write))) \<and>
   (reboot_issued cfg now now_write st \<and> write_failure (fs_write st) = Some message \<longrightarrow>
      events (restartSystem cfg now now_write st) =
        events st @ [Log (''Error writing reboot file: '' @ message),
                     Log ''Restarting system...'', Exec (restart_cmd cfg)])"
  by (simp add: reboot_issued_iff restartSystem_permitted)

theorem restartSystem_write_then_exec_witness:
  "events (restartSystem default_config 1700003600000 1700003600001
             (armed_state 1700000180000 (Some (units ''1700000000000'')) WriteOk)) =
     [WriteFile ''1700003600001'', Log ''Restarting system...'', Exec ''sudo shutdown -r +1''] \<and>
   guard_file (restartSystem default_config 1700003600000 1700003600001
             (armed_state 1700000180000 (Some (units ''1700000000000'')) WriteOk)) =
     Some (units ''1700003600001'') \<and>
   events (restartSystem default_config 1700003600000 1700003600001
             (armed_state 1700000180000 None (OpenFails ''EROFS: read-only file system''))) =
     [Log ''Error writing reboot file: EROFS: read-only file system'',
      Log ''Restarting system...'', Exec ''sudo shutdown -r +1'']"
  using restartSystem_write_then_exec [of default_config 1700003600000 1700003600001
      "armed_state 1700000180000 (Some (units ''1700000000000'')) WriteOk"]
    restartSystem_write_then_exec [of default_config 1700003600000 1700003600001
      "armed_state 1700000180000 None (OpenFails ''EROFS: read-only file system'')"
      "''EROFS: read-only file system''"]
  by (simp add: reboot_issued_iff getLastRebootTimestamp_def armed_state_def default_config_def
      restart_cmd_def isDevelopmentMode_def toString_def nat_toString.simps digit_char_def
      units_def parseInt10_def trim_def is_ws_def is_digit_def digits_value_def digit_val_def
      round_double_def)

text \<open>
  Claim C9, as stated: when the record cannot be read the guard is permissive. It
  fails as C4 does: a failed read gives \<open>lastRebootAt = 0\<close>, and the comparison is
  still made. With the defaults, an alarm raised 30 seconds after the epoch and
  matured, and a tick 240 seconds after the epoch, the guard file being unreadable:
  the callback logs that the restart is skipped.
\<close>

theorem read_failure_reboot_denied:
  "guard_file (armed_state 210000 None WriteOk) = None \<and>
   matured (armed_state 210000 None WriteOk) 240000 \<and>
   events (interval_callback default_config 240000 240000 240001
             (armed_state 210000 None WriteOk)) =
     [HttpGet, Log ''Restart skipped: protection interval not met.'']"
  by (simp add: interval_callback_def matured_def restartSystem_def getLastRebootTimestamp_def
      log_def armed_state_def default_config_def)

text \<open>
  Claim C9, amended. Persistence errors do not abort the cycle. When the record cannot
  be read, \<^verbatim>\<open>getLastRebootTimestamp\<close> returns \<open>0\<close> and \<^verbatim>\<open>restartSystem\<close> does what
  it does for a file that holds no number, that is for no recorded reboot: it permits
  if and only if \<open>now \<ge> MIN_REBOOT_INTERVAL\<close>, not in every case. When the record
  cannot be written, the guard decides as it would otherwise, and when it permits the
  failure is logged and the reboot command is issued all the same.
\<close>

theorem persistence_errors_do_not_abort:
  "(guard_file st = None \<longrightarrow>
      getLastRebootTimestamp st = Num 0 \<and>
      (parseInt10 (trim data) = NaN \<longrightarrow>
         events (restartSystem cfg now now_write (st\<lparr>guard_file := Some data\<rparr>)) =
         events (restartSystem cfg now now_write st)) \<and>
      (reboot_issued cfg now now_write st \<longleftrightarrow> now \<ge> MIN_REBOOT_INTERVAL cfg)) \<and>
   (write_failure (fs_write st) = Some message \<longrightarrow>
      (reboot_issued cfg now now_write st \<longleftrightarrow>
         \<not> js_lt (js_sub (Num now) (getLastRebootTimestamp st)) (Num (MIN_REBOOT_INTERVAL cfg))) \<and>
      (reboot_issued cfg now now_write st \<longrightarrow>
         new_events st (restartSystem cfg now now_write st) =
           [Log (''Error writing reboot file: '' @ message), Log ''Restarting system...'',
            Exec (restart_cmd cfg)]))"
  by (auto simp: reboot_issued_iff getLastRebootTimestamp_unreadable new_events_def
      restartSystem_permitted(1) restartSystem_events_no_number)

theorem persistence_errors_do_not_abort_witness:
  "events (restartSystem default_config 1700000000000 1700000000001
      (armed_state 1700000180000 None (OpenFails ''EROFS: read-only file system''))) =
   events (restartSystem default_config 1700000000000 1700000000001
      (armed_state 1700000180000 (Some (units ''no number''))
         (OpenFails ''EROFS: read-only file system''))) \<and>
   reboot_issued default_config 1700000000000 1700000000001
     (armed_state 1700000180000 None (OpenFails ''EROFS: read-only file system'')) \<and>
   new_events (armed_state 1700000180000 None (OpenFails ''EROFS: read-only file system''))
     (restartSystem default_config 1700000000000 1700000000001
        (armed_state 1700000180000 None (OpenFails ''EROFS: read-only file system''))) =
     [Log ''Error writing reboot file: EROFS: read-only file system'',
      Log ''Restarting system...'', Exec ''sudo shutdown -r +1'']"
  using persistence_errors_do_not_abort
      [of "armed_state 1700000180000 None (OpenFails ''EROFS: read-only file system'')"
        "units ''no number''" default_config 1700000000000 1700000000001
        "''EROFS: read-only file system''"]
  by (simp add: getLastRebootTimestamp_def armed_state_def default_config_def
      restart_cmd_def isDevelopmentMode_def reboot_issued_def new_events_def
      restartSystem_def setLastRebootTimestamp_def log_def units_def parseInt10_def trim_def
      is_ws_def is_digit_def)

subsection \<open>The timer callback\<close>

text \<open>
  Claim C2. In each tick the sample is to be resolved and the alarm updated from it
  before the maturity check and the guard of the same tick, so that the reboot
  decision depends on that tick's sample. In the source the callback does not await
  \<^verbatim>\<open>checkTimestamp()\<close>: the maturity check runs on the alarm that earlier samples
  left, and the sample of the tick updates the alarm only afterwards. Evaluated on an
  alarm that is armed and matured, in a tick whose sample is in sync (10 ms of
  drift): the source issues the reboot command and then logs "Timestamp OK" and
  disarms; the cycle in the order of the specification disarms and does not reboot.
\<close>

theorem tick_reboots_before_in_sync_sample:
  "events (tick default_config (Fulfilled (Data (Num 1700000300010)))
             1700000300000 1700000300000 1700000300001 1700000300020 1700000300020
             (armed_state 1700000180000 None WriteOk)) =
     [HttpGet, WriteFile ''1700000300001'', Log ''Restarting system...'',
      Exec ''sudo shutdown -r +1'', Log ''Timestamp OK (10 ms)'', Log ''Alarm deactivated.''] \<and>
   events (spec_cycle default_config (Fulfilled (Data (Num 1700000300010)))
             1700000300021 1700000300021 1700000300022 1700000300020 1700000300020
             (armed_state 1700000180000 None WriteOk)) =
     [HttpGet, Log ''Timestamp OK (10 ms)'', Log ''Alarm deactivated.'']"
  by (simp add: tick_def spec_cycle_def interval_callback_def matured_def checkTimestamp_def
      setAlarm_def restartSystem_def setLastRebootTimestamp_def getLastRebootTimestamp_def
      log_def armed_state_def default_config_def restart_cmd_def isDevelopmentMode_def
      toString_def nat_toString.simps digit_char_def)

subsection \<open>Program startup\<close>

text \<open>
  Claim C10, as stated: every value of \<^verbatim>\<open>NODE_ENV\<close> other than "development" and
  "production", unset apart, makes the startup throw. It fails for the empty string:
  \<^verbatim>\<open>NODE_ENV=\<close> is set, but the empty string is falsy, so line 13 takes "production"
  and the program starts the server and the client.
\<close>

theorem startup_runs_with_empty_NODE_ENV:
  "program_startup (default_config\<lparr>env := env_of (Some [])\<rparr>) True True
     (initial_state None WriteOk) =
     Inr \<lparr>alarm = False, timestamp_alarm = 0, guard_file = None, fs_write = WriteOk,
          events = [Log ''Production mode activated.'',
                    Log ''API URL: http://localhost:51823/api/timestamp'',
                    Log ''Server mode activated.'', Log ''Client mode activated.'', HttpGet]\<rparr>"
  by (simp add: program_startup_def env_of_def isDevelopmentMode_def isProductionMode_def
      startServer_def startClient_def log_def initial_state_def default_config_def)

text \<open>
  Claim C10, amended. For every non-empty value of \<^verbatim>\<open>NODE_ENV\<close> other than
  "development" and "production", the startup logs the unknown mode and throws a
  TypeError (the assignment to the constant \<^verbatim>\<open>env\<close>) before the server or the
  client is started. Unset and empty both default to "production".
\<close>

theorem startup_throws_on_unknown_mode:
  "(v \<noteq> [] \<and> v \<noteq> ''development'' \<and> v \<noteq> ''production'' \<longrightarrow>
      program_startup (cfg\<lparr>env := env_of (Some v)\<rparr>) isServer isClient st =
        Inl (TypeError ''Assignment to constant variable.'',
             log ''Unknown mode, assuming production mode.'' st)) \<and>
   env_of None = ''production'' \<and> env_of (Some []) = ''production''"
  by (simp add: program_startup_def env_of_def isDevelopmentMode_def isProductionMode_def)

theorem startup_throws_on_unknown_mode_witness:
  "program_startup (default_config\<lparr>env := env_of (Some ''staging'')\<rparr>) True True
     (initial_state None WriteOk) =
     Inl (TypeError ''Assignment to constant variable.'',
          \<lparr>alarm = False, timestamp_alarm = 0, guard_file = None, fs_write = WriteOk,
           events = [Log ''Unknown mode, assuming production mode.'']\<rparr>)"
  using startup_throws_on_unknown_mode [of "''staging''" default_config True True
      "initial_state None WriteOk"]
  by (simp add: log_def initial_state_def)

end
